theory Spec2Isabelle
  imports Main "HOL-Library.AList"
begin

section \<open>The e-mail distributor of the announcer plugin\<close>

text \<open>
  A shallow embedding of \<^verbatim>\<open>announcer/distributors/mail.py\<close>, class
  \<^verbatim>\<open>EmailDistributor\<close>. The module is written for Python 3 (it imports
  \<^verbatim>\<open>queue\<close> and tests \<^verbatim>\<open>isinstance(output, str)\<close>), and every operation of the
  language and of its library is given its Python 3 meaning; where Python 2 differed and
  a result depends on it, what Python 2 did is said beside it. In particular a \<^verbatim>\<open>list\<close>
  has no order with an \<^verbatim>\<open>int\<close>, a \<^verbatim>\<open>dict\<close> has no method \<^verbatim>\<open>iteritems\<close>,
  \<^verbatim>\<open>hashlib.md5\<close> refuses a \<^verbatim>\<open>str\<close>, \<^verbatim>\<open>MIMEText\<close> refuses \<^verbatim>\<open>bytes\<close>, and
  \<^verbatim>\<open>str.encode\<close> raises \<^verbatim>\<open>UnicodeEncodeError\<close>.

  Components reached through extension points (formatters, resolvers, decorators, the
  sender), the preference store and the crypto engine are collaborators: the record
  \<open>env\<close> holds what they answer, together with the values read from the clock, the
  random generator and the project, and with the library functions whose result is a mere
  text (\<^verbatim>\<open>formatdate\<close>, \<^verbatim>\<open>formataddr\<close>, the digest, the formatting of numbers). A
  message is kept as the headers written to it and the parts attached to it. The calls
  that \<^verbatim>\<open>_do_send\<close> makes to the outside are written to a trace. Calls to the logger are
  left out.
\<close>

subsection \<open>Values\<close>

type_synonym style = string
type_synonym address = string
type_synonym keyid = string

text \<open>A component instance is known by its identity.\<close>

type_synonym ref = nat

text \<open>A Python 3 \<^verbatim>\<open>str\<close>; the code points below 128 are the ASCII ones.\<close>

type_synonym pystr = string

datatype error =
    TypeError
  | AttributeError
  | UnicodeEncodeError
  | UnicodeDecodeError
  | ReError
  | TracError string

record event =
  realm :: string
  category :: string
  target :: string

text \<open>
  A recipient as \<^verbatim>\<open>distribute\<close> receives it: \<^verbatim>\<open>(name, authed, address)\<close>, where
  each component may be \<^verbatim>\<open>None\<close>. The tuples stored in the groups carry the address
  that was found, a string.
\<close>

type_synonym recipient = "string option \<times> bool option \<times> string option"
type_synonym rcpt = "string option \<times> bool option \<times> address"

text \<open>Truth value of a \<^verbatim>\<open>str\<close> or \<^verbatim>\<open>None\<close>.\<close>

definition truthy :: "string option \<Rightarrow> bool" where
  "truthy v = (case v of None \<Rightarrow> False | Some s \<Rightarrow> s \<noteq> [])"

text \<open>
  \<open>TextPart output subtype\<close> is \<^verbatim>\<open>MIMEText(output, subtype)\<close> with the charset of the
  component; \<open>Alternative ps\<close> is a \<^verbatim>\<open>MIMEMultipart('alternative')\<close> with the parts
  \<open>ps\<close> attached in this order. A \<open>message\<close> is the root
  \<^verbatim>\<open>MIMEMultipart('related')\<close>.
\<close>

datatype part =
    TextPart pystr string
  | Alternative "part list"

record message =
  headers :: "(string \<times> string) list"
  preamble :: string
  parts :: "part list"

subsection \<open>Configuration and collaborators\<close>

record config =
  enabled :: bool
  email_from :: string
  from_name :: string
  reply_to :: string
  mime_encoding :: string
  use_public_cc :: bool
  email_to :: string
  use_threaded_delivery :: bool
  default_email_format :: style
  rcpt_allow_regexp :: string
  rcpt_local_regexp :: string
  crypto :: string
  private_key :: "string option"

text \<open>The class attribute \<^verbatim>\<open>to_default\<close>, also the default of the option \<^verbatim>\<open>email_to\<close>.\<close>

definition to_default :: string where
  "to_default = ''undisclosed-recipients: ;''"

text \<open>
  \<open>re_compile p\<close> is \<^verbatim>\<open>re.compile(p)\<close>: \<open>None\<close> when the pattern is refused, else the
  test \<^verbatim>\<open>search(s) is not None\<close> of the compiled pattern.

  \<open>find_by_sid_and_distributor\<close> gives the \<^verbatim>\<open>'format'\<close> column of the rows that
  \<^verbatim>\<open>Subscription.find_by_sid_and_distributor\<close> returns.

  \<open>gettext\<close> is the translation function \<^verbatim>\<open>_\<close>; \<open>formatdate\<close> and \<open>formataddr\<close>
  stand for \<^verbatim>\<open>email.utils.formatdate\<close> and \<^verbatim>\<open>email.utils.formataddr\<close>; the three
  \<open>enigma\<close> functions are the methods \<^verbatim>\<open>sign\<close>, \<^verbatim>\<open>encrypt\<close> and
  \<^verbatim>\<open>sign_encrypt\<close> of \<^verbatim>\<open>CryptoTxt\<close>.

  \<open>id_seed rlm\<close> is the \<^verbatim>\<open>str\<close> that \<^verbatim>\<open>_message_id\<close> builds at lines 367 to 369 from
  the project URL, the clock, a random number and the realm; \<open>md5_hexdigest\<close> is the
  digest that \<^verbatim>\<open>hashlib\<close> gives for bytes, and \<open>percent_03d\<close> the formatting
  \<^verbatim>\<open>'%03d' % n\<close>.

  \<open>decorate_message d ev m\<close> is what the decorator \<open>d\<close> makes of the message, and
  whether it then goes on as the interface asks it to: popping the list it was handed
  and calling the decorator it popped, when that list is not empty.

  \<open>ids_gt_int ids n\<close> is the comparison \<^verbatim>\<open>pubkey_ids > n\<close>. What it answers is decided
  by the type of the value that \<^verbatim>\<open>CryptoTxt.get_pubkey_ids\<close> returns and by the
  interpreter, neither of which is part of the file modelled here; \<open>list_gt_int\<close> below is
  what Python 3 does when that value is a list.
\<close>

record env =
  formatters :: "ref list"
  styles :: "ref \<Rightarrow> string \<Rightarrow> string \<Rightarrow> style list"
  alternative_style_for :: "ref \<Rightarrow> string \<Rightarrow> string \<Rightarrow> style \<Rightarrow> style option"
  format :: "ref \<Rightarrow> string \<Rightarrow> string \<Rightarrow> style \<Rightarrow> event \<Rightarrow> pystr"
  resolvers :: "ref list"
  get_address_for_session :: "ref \<Rightarrow> string \<Rightarrow> bool option \<Rightarrow> string option"
  find_by_sid_and_distributor :: "string \<Rightarrow> bool \<Rightarrow> string \<Rightarrow> style option list"
  re_compile :: "string \<Rightarrow> (string \<Rightarrow> bool) option"
  get_pubkey_ids :: "address \<Rightarrow> keyid list"
  ids_gt_int :: "keyid list \<Rightarrow> int \<Rightarrow> error + bool"
  project_name :: string
  id_seed :: "string \<Rightarrow> pystr"
  md5_hexdigest :: "string \<Rightarrow> string"
  percent_03d :: "nat \<Rightarrow> string"
  formatdate :: string
  formataddr :: "string \<Rightarrow> string \<Rightarrow> string"
  gettext :: "string \<Rightarrow> string"
  enigma_sign :: "pystr \<Rightarrow> string option \<Rightarrow> pystr"
  enigma_encrypt :: "pystr \<Rightarrow> keyid list \<Rightarrow> pystr"
  enigma_sign_encrypt :: "pystr \<Rightarrow> keyid list \<Rightarrow> string option \<Rightarrow> pystr"
  decorate_message :: "ref \<Rightarrow> event \<Rightarrow> message \<Rightarrow> message \<times> bool"

text \<open>
  Python 3 has no order between a list and an int: \<^verbatim>\<open>[] > 0\<close> and
  \<^verbatim>\<open>['ABCD'] > 0\<close> both raise \<^verbatim>\<open>TypeError\<close>.
\<close>

definition list_gt_int :: "keyid list \<Rightarrow> int \<Rightarrow> error + bool" where
  "list_gt_int ids n = Inl TypeError"

text \<open>
  Python 2 ordered values of different types by the name of the type, numbers first: every
  list was greater than every int.
\<close>

definition list_gt_int_py2 :: "keyid list \<Rightarrow> int \<Rightarrow> error + bool" where
  "list_gt_int_py2 ids n = Inr True"

subsection \<open>The catalog of formats\<close>

text \<open>
  \<^verbatim>\<open>formats(transport, realm)\<close>: a \<^verbatim>\<open>dict\<close> from style to formatter, filled by
  \<^verbatim>\<open>formats[style] = f\<close> for every formatter in turn and every style it yields. A
  \<^verbatim>\<open>dict\<close> keeps its keys in the order of their first insertion, and an assignment to
  a key that is present replaces the value in place: this is \<open>AList.update\<close>.
\<close>

definition formats :: "env \<Rightarrow> string \<Rightarrow> string \<Rightarrow> (style \<times> ref) list" where
  "formats E transport rlm =
     fold (\<lambda>f d. fold (\<lambda>style. AList.update style f) (styles E f transport rlm) d)
       (formatters E) []"

subsection \<open>Classifying the recipients\<close>

definition get_default_format :: "config \<Rightarrow> style" where
  "get_default_format C = default_email_format C"

text \<open>
  \<^verbatim>\<open>_get_preferred_format(realm, sid, authenticated)\<close>. The value may be \<^verbatim>\<open>None\<close>
  or empty when the stored row says so.
\<close>

definition get_preferred_format ::
  "config \<Rightarrow> env \<Rightarrow> string \<Rightarrow> string \<Rightarrow> bool option \<Rightarrow> style option" where
  "get_preferred_format C E rlm sid authenticated =
     (let authenticated = (case authenticated of None \<Rightarrow> False | Some b \<Rightarrow> b);
          result = find_by_sid_and_distributor E sid authenticated ''email''
      in case result of
           [] \<Rightarrow> Some (get_default_format C)
         | chosen # _ \<Rightarrow> chosen)"

text \<open>
  \<^verbatim>\<open>name and self._get_preferred_format(...) or self._get_default_format()\<close>
\<close>

definition wanted_format :: "config \<Rightarrow> env \<Rightarrow> string \<Rightarrow> recipient \<Rightarrow> style" where
  "wanted_format C E rlm rcp =
     (case rcp of (name, authed, address) \<Rightarrow>
        (case name of
           None \<Rightarrow> get_default_format C
         | Some n \<Rightarrow>
             if n = [] then get_default_format C
             else (case get_preferred_format C E rlm n authed of
                     None \<Rightarrow> get_default_format C
                   | Some p \<Rightarrow> if p = [] then get_default_format C else p)))"

text \<open>
  The search for an alternative: \<^verbatim>\<open>fmt = None\<close>, then for every formatter of
  \<^verbatim>\<open>formats.values()\<close> the answer of \<^verbatim>\<open>alternative_style_for\<close> is stored in
  \<^verbatim>\<open>fmt\<close>, and the loop is left at the first answer that is true.
\<close>

fun find_alternative ::
  "env \<Rightarrow> string \<Rightarrow> string \<Rightarrow> style \<Rightarrow> ref list \<Rightarrow> style option \<Rightarrow> style option" where
  "find_alternative E transport rlm old_fmt [] fmt = fmt"
| "find_alternative E transport rlm old_fmt (f # fs) fmt =
     (let fmt = alternative_style_for E f transport rlm old_fmt
      in if truthy fmt then fmt else find_alternative E transport rlm old_fmt fs fmt)"

definition chosen_format ::
  "config \<Rightarrow> env \<Rightarrow> string \<Rightarrow> event \<Rightarrow> (style \<times> ref) list \<Rightarrow> recipient \<Rightarrow> style option" where
  "chosen_format C E transport ev fmts rcp =
     (let fmt = wanted_format C E (realm ev) rcp;
          old_fmt = fmt
      in if map_of fmts fmt = None
         then find_alternative E transport (realm ev) old_fmt (map snd fmts) None
         else Some fmt)"

text \<open>
  The walk over the resolvers, entered when the name is true and the address is not: each
  answer is stored in \<^verbatim>\<open>address\<close>, and the first true one ends the walk.
\<close>

fun resolve ::
  "env \<Rightarrow> string \<Rightarrow> bool option \<Rightarrow> ref list \<Rightarrow> string option \<Rightarrow> string option" where
  "resolve E name authed [] address = address"
| "resolve E name authed (resolver # rs) address =
     (let address = get_address_for_session E resolver name authed
      in if truthy address then address else resolve E name authed rs address)"

definition found_address :: "env \<Rightarrow> recipient \<Rightarrow> string option" where
  "found_address E rcp =
     (case rcp of (name, authed, address) \<Rightarrow>
        if truthy name \<and> \<not> truthy address
        then resolve E (case name of None \<Rightarrow> [] | Some n \<Rightarrow> n) authed (resolvers E) address
        else address)"

text \<open>
  The two groups and the list of key ids. A group is a \<^verbatim>\<open>dict\<close> from style to a
  \<^verbatim>\<open>set\<close> of tuples; the set is kept as a list without repetition, in the order of
  insertion (the order in which Python walks a set is the interpreter's).
\<close>

type_synonym groups = "(style \<times> rcpt list) list"

record classified =
  msgdict :: groups
  msgdict_encrypt :: groups
  msg_pubkey_ids :: "keyid list"

text \<open>
  \<^verbatim>\<open>msgdict = {}\<close>, \<^verbatim>\<open>msgdict_encrypt = {}\<close>, \<^verbatim>\<open>msg_pubkey_ids = []\<close>
\<close>

definition no_classified :: classified where
  "no_classified = \<lparr>msgdict = [], msgdict_encrypt = [], msg_pubkey_ids = []\<rparr>"

text \<open>\<^verbatim>\<open>d.setdefault(fmt, set()).add(x)\<close>\<close>

definition setdefault_add :: "style \<Rightarrow> rcpt \<Rightarrow> groups \<Rightarrow> groups" where
  "setdefault_add fmt x d =
     (case map_of d fmt of
        None \<Rightarrow> d @ [(fmt, [x])]
      | Some v \<Rightarrow> AList.update fmt (if x \<in> set v then v else v @ [x]) d)"

text \<open>\<^verbatim>\<open>d.get(fmt, set())\<close>: the tuples a group holds for a style.\<close>

definition group_of :: "groups \<Rightarrow> style \<Rightarrow> rcpt list" where
  "group_of d fmt = (case map_of d fmt of None \<Rightarrow> [] | Some v \<Rightarrow> v)"

text \<open>
  The body of the loop \<^verbatim>\<open>for name, authed, address in recipients\<close>, on the two groups
  and the list of key ids. \<open>Inr\<close> is the state with which the loop goes on to the next
  recipient, \<open>Inl\<close> an exception that leaves the loop.
\<close>

definition classify_one ::
  "config \<Rightarrow> env \<Rightarrow> (string \<Rightarrow> bool) \<Rightarrow> (string \<Rightarrow> bool) \<Rightarrow> string \<Rightarrow> event \<Rightarrow>
   (style \<times> ref) list \<Rightarrow> recipient \<Rightarrow> classified \<Rightarrow> error + classified" where
  "classify_one C E rcpt_allow_re rcpt_local_re transport ev fmts rcp A =
     (case rcp of (name, authed, _) \<Rightarrow>
      (case chosen_format C E transport ev fmts rcp of
         None \<Rightarrow> Inr A
       | Some fmt \<Rightarrow>
           if fmt = [] then Inr A
           else
             (case found_address E rcp of
                None \<Rightarrow> Inr A
              | Some address \<Rightarrow>
                  if address = [] then Inr A
                  else if rcpt_allow_re address then
                    (let local_match = rcpt_local_re address
                     in if crypto C \<in> set [''encrypt'', ''sign,encrypt''] \<and> \<not> local_match
                        then
                          (let pubkey_ids = get_pubkey_ids E address
                           in case ids_gt_int E pubkey_ids 0 of
                                Inl e \<Rightarrow> Inl e
                              | Inr True \<Rightarrow>
                                  Inr (A\<lparr>msgdict_encrypt :=
                                           setdefault_add fmt (name, authed, address)
                                             (msgdict_encrypt A),
                                         msg_pubkey_ids := msg_pubkey_ids A @ pubkey_ids\<rparr>)
                              | Inr False \<Rightarrow> Inr A)
                        else
                          Inr (A\<lparr>msgdict :=
                                   setdefault_add fmt (name, authed, address) (msgdict A)\<rparr>))
                  else Inr A)))"

fun classify ::
  "config \<Rightarrow> env \<Rightarrow> (string \<Rightarrow> bool) \<Rightarrow> (string \<Rightarrow> bool) \<Rightarrow> string \<Rightarrow> event \<Rightarrow>
   (style \<times> ref) list \<Rightarrow> recipient list \<Rightarrow> classified \<Rightarrow> error + classified" where
  "classify C E rcpt_allow_re rcpt_local_re transport ev fmts [] A = Inr A"
| "classify C E rcpt_allow_re rcpt_local_re transport ev fmts (rcp # rcps) A =
     (case classify_one C E rcpt_allow_re rcpt_local_re transport ev fmts rcp A of
        Inl e \<Rightarrow> Inl e
      | Inr A' \<Rightarrow> classify C E rcpt_allow_re rcpt_local_re transport ev fmts rcps A')"

subsection \<open>State and trace\<close>

datatype call =
    Format ref style
  | AlternativeStyleFor ref style
  | Sign pystr "string option"
  | Encrypt pystr "keyid list"
  | SignEncrypt pystr "keyid list" "string option"
  | DecorateMessage ref "ref list"
  | StartThread
  | QueuePut string "address list" message
  | SenderSend string "address list" message

datatype encoding = QP | BASE64

record charset =
  input_charset :: string
  header_encoding :: "encoding option"
  body_encoding :: "encoding option"
  output_charset :: "string option"

text \<open>
  What the component and the objects it shares hold. List objects live in \<open>lists\<close>, a
  store from addresses to contents: \<open>decorators\<close> is the address of the registered
  list \<^verbatim>\<open>self.decorators\<close>, \<open>next_free\<close> the first address not yet handed out.
  \<open>enigma\<close> says that \<^verbatim>\<open>self.enigma\<close> is a \<^verbatim>\<open>CryptoTxt\<close> and not \<^verbatim>\<open>None\<close>;
  \<open>delivery_queue\<close> is \<open>None\<close> until the queue is made, then what was put on it.
\<close>

type_synonym addr = nat

record state =
  enigma :: bool
  delivery_queue :: "(string \<times> address list \<times> message) list option"
  the_charset :: charset
  lists :: "addr \<Rightarrow> ref list"
  next_free :: addr
  decorators :: addr
  trace :: "call list"

subsection \<open>The preferred encoding\<close>

text \<open>\<^verbatim>\<open>str.lower\<close>, on the letters A to Z.\<close>

definition lower :: "string \<Rightarrow> string" where
  "lower s =
     map (\<lambda>c. let n = (of_char c :: nat)
              in if 65 \<le> n \<and> n \<le> 90 then char_of (n + 32) else c) s"

text \<open>\<^verbatim>\<open>_init_pref_encoding\<close>, called by the constructor.\<close>

definition init_pref_encoding :: "config \<Rightarrow> error + charset" where
  "init_pref_encoding C =
     (let pref = lower (mime_encoding C)
      in if pref = ''base64'' then
           Inr \<lparr>input_charset = ''utf-8'', header_encoding = Some BASE64,
                body_encoding = Some BASE64, output_charset = Some ''utf-8''\<rparr>
         else if pref \<in> set [''qp'', ''quoted-printable''] then
           Inr \<lparr>input_charset = ''utf-8'', header_encoding = Some QP,
                body_encoding = Some QP, output_charset = Some ''utf-8''\<rparr>
         else if pref = ''none'' then
           Inr \<lparr>input_charset = ''utf-8'', header_encoding = None,
                body_encoding = None, output_charset = Some ''ascii''\<rparr>
         else Inl (TracError (''Invalid email encoding setting: '' @ pref)))"

subsection \<open>Assembling and sending one message\<close>

text \<open>\<^verbatim>\<open>sep.join(xs)\<close>\<close>

fun join :: "string \<Rightarrow> string list \<Rightarrow> string" where
  "join sep [] = []"
| "join sep [x] = x"
| "join sep (x # y # ys) = x @ sep @ join sep (y # ys)"

text \<open>\<^verbatim>\<open>sub in s\<close> on strings\<close>

fun contains :: "string \<Rightarrow> string \<Rightarrow> bool" where
  "contains sub [] = (sub = [])"
| "contains sub (c # cs) = (take (length sub) (c # cs) = sub \<or> contains sub cs)"

text \<open>
  \<^verbatim>\<open>output.encode('ascii')\<close> on a \<^verbatim>\<open>str\<close>: Python 3 raises
  \<^verbatim>\<open>UnicodeEncodeError\<close> when a code point is not below 128. (In Python 2 a
  \<^verbatim>\<open>unicode\<close> value did the same; only a byte string was first decoded, and raised
  \<^verbatim>\<open>UnicodeDecodeError\<close>.)
\<close>

definition encode_ascii :: "pystr \<Rightarrow> error + unit" where
  "encode_ascii s =
     (if list_all (\<lambda>c. (of_char c :: nat) < 128) s then Inr () else Inl UnicodeEncodeError)"

text \<open>
  A value that is a \<^verbatim>\<open>str\<close> or \<^verbatim>\<open>bytes\<close>, where the library tells them apart. A
  \<^verbatim>\<open>str\<close> is the list of its code points, here below 256, and \<^verbatim>\<open>bytes\<close> the list of
  its bytes.
\<close>

datatype pyarg = Str pystr | Bytes string

text \<open>\<^verbatim>\<open>s.encode('utf-8')\<close> on a \<^verbatim>\<open>str\<close>\<close>

definition encode_utf8 :: "pystr \<Rightarrow> string" where
  "encode_utf8 s =
     concat (map (\<lambda>c. let n = (of_char c :: nat)
                       in if n < 128 then [c]
                          else [char_of (192 + n div 64), char_of (128 + n mod 64)]) s)"

text \<open>
  \<^verbatim>\<open>hashlib.md5(x).hexdigest()\<close>: Python 3 hashes bytes only, and raises
  \<^verbatim>\<open>TypeError\<close> for a \<^verbatim>\<open>str\<close>. (In Python 2 the \<^verbatim>\<open>str\<close> was a byte string and was
  hashed.)
\<close>

definition hashlib_md5 :: "env \<Rightarrow> pyarg \<Rightarrow> error + string" where
  "hashlib_md5 E x = (case x of Str t \<Rightarrow> Inl TypeError | Bytes b \<Rightarrow> Inr (md5_hexdigest E b))"

text \<open>
  \<^verbatim>\<open>self.email_from[self.email_from.find('@') + 1:]\<close>: what follows the first
  \<^verbatim>\<open>@\<close>, and the whole string when there is none (\<^verbatim>\<open>find\<close> then gives -1).
\<close>

definition host_of :: "string \<Rightarrow> string" where
  "host_of a = (case dropWhile (\<lambda>c. c \<noteq> CHR ''@'') a of [] \<Rightarrow> a | c # cs \<Rightarrow> cs)"

text \<open>
  \<^verbatim>\<open>_message_id(realm)\<close>, lines 363 to 373. The value \<^verbatim>\<open>s\<close> of line 367 is made by
  the operator \<^verbatim>\<open>%\<close> on a \<^verbatim>\<open>str\<close>, so it is a \<^verbatim>\<open>str\<close>, and line 370 hands it to
  \<^verbatim>\<open>hashlib.md5\<close> as it is.
\<close>

definition message_id :: "config \<Rightarrow> env \<Rightarrow> string \<Rightarrow> error + string" where
  "message_id C E rlm =
     (let s = id_seed E rlm
      in case hashlib_md5 E (Str s) of
           Inl e \<Rightarrow> Inl e
         | Inr dig \<Rightarrow>
             Inr (''<'' @ percent_03d E (length s) @ ''.'' @ dig @ ''@'' @
                  host_of (email_from C) @ ''>''))"

text \<open>Lines 382 to 385: the sender, for the header and for the \<^verbatim>\<open>IEmailSender\<close>.\<close>

definition from_header :: "config \<Rightarrow> env \<Rightarrow> string" where
  "from_header C E =
     formataddr E (if from_name C \<noteq> [] then from_name C else project_name E) (email_from C)"

text \<open>
  Lines 394 to 403, the policy on visible recipients, as a function of the addresses of
  line 392: the one header that these lines write, and the list of addresses as they
  leave it. \<open>CHR 0x22\<close> is the double quote of \<^verbatim>\<open>'"%s"' % self.to\<close>.
\<close>

definition recipient_policy ::
  "config \<Rightarrow> env \<Rightarrow> address list \<Rightarrow> (string \<times> string) \<times> address list" where
  "recipient_policy C E recip_adds =
     (if use_public_cc C then ((''Cc'', join '', '' recip_adds), recip_adds)
      else if email_to C = to_default then
        ((''To'', gettext E ''undisclosed-recipients: ;''), recip_adds)
      else
        ((''To'', [CHR 0x22] @ email_to C @ [CHR 0x22]),
         if email_to C \<noteq> [] then recip_adds @ [email_to C] else recip_adds))"

text \<open>
  \<^verbatim>\<open>headers.iteritems()\<close>, line 412: a \<^verbatim>\<open>dict\<close> of Python 3 has no such method, and
  the lookup of the attribute raises \<^verbatim>\<open>AttributeError\<close>. (In Python 2 it gave the
  items.)
\<close>

definition iteritems :: "(string \<times> string) list \<Rightarrow> error + (string \<times> string) list" where
  "iteritems d = Inl AttributeError"

text \<open>
  Lines 415 to 442: the body and, outside the crypto branch, the alternative rendering.
  The result is \<open>(output, alternate_style, alternate_output)\<close> and the state with the
  calls added to its trace; \<^verbatim>\<open>self.enigma\<close> being \<^verbatim>\<open>None\<close> makes the call of one of
  its methods an \<^verbatim>\<open>AttributeError\<close>.
\<close>

definition render ::
  "config \<Rightarrow> env \<Rightarrow> string \<Rightarrow> event \<Rightarrow> style \<Rightarrow> ref \<Rightarrow> keyid list \<Rightarrow> state \<Rightarrow>
   (error + pystr \<times> style option \<times> pystr option) \<times> state" where
  "render C E transport ev fmt formatter pubkey_ids s =
     (let output = format E formatter transport (realm ev) fmt ev;
          s = s\<lparr>trace := trace s @ [Format formatter fmt]\<rparr>
      in if crypto C \<noteq> [] \<and> pubkey_ids \<noteq> [] then
           (if crypto C = ''sign'' then
              (if enigma s
               then (Inr (enigma_sign E output (private_key C), None, None),
                     s\<lparr>trace := trace s @ [Sign output (private_key C)]\<rparr>)
               else (Inl AttributeError, s))
            else if crypto C = ''encrypt'' then
              (if enigma s
               then (Inr (enigma_encrypt E output pubkey_ids, None, None),
                     s\<lparr>trace := trace s @ [Encrypt output pubkey_ids]\<rparr>)
               else (Inl AttributeError, s))
            else if crypto C = ''sign,encrypt'' then
              (if enigma s
               then (Inr (enigma_sign_encrypt E output pubkey_ids (private_key C), None, None),
                     s\<lparr>trace := trace s @ [SignEncrypt output pubkey_ids (private_key C)]\<rparr>)
               else (Inl AttributeError, s))
            else (Inr (output, None, None), s))
         else
           (let alternate_style = alternative_style_for E formatter transport (realm ev) fmt;
                s = s\<lparr>trace := trace s @ [AlternativeStyleFor formatter fmt]\<rparr>
            in case alternate_style of
                 None \<Rightarrow> (Inr (output, None, None), s)
               | Some a \<Rightarrow>
                   if a = [] then (Inr (output, Some a, None), s)
                   else (Inr (output, Some a, Some (format E formatter transport (realm ev) a ev)),
                         s\<lparr>trace := trace s @ [Format formatter a]\<rparr>)))"

text \<open>
  Lines 444 to 450: with no body encoding the output must encode as ASCII; the handler
  turns a \<^verbatim>\<open>UnicodeDecodeError\<close> into a \<^verbatim>\<open>TracError\<close> and lets any other exception
  pass.
\<close>

definition sanity_check :: "state \<Rightarrow> pystr \<Rightarrow> error + unit" where
  "sanity_check s output =
     (if body_encoding (the_charset s) = None then
        (case encode_ascii output of
           Inl UnicodeDecodeError \<Rightarrow>
             Inl (TracError ''Ticket contains non-ASCII chars. Please change encoding setting'')
         | Inl e \<Rightarrow> Inl e
         | Inr u \<Rightarrow> Inr u)
      else Inr ())"

text \<open>
  \<^verbatim>\<open>MIMEText(x, subtype)\<close>: the constructor of Python 3 calls \<^verbatim>\<open>x.encode\<close>, which a
  \<^verbatim>\<open>str\<close> has and \<^verbatim>\<open>bytes\<close> have not: for bytes it raises \<^verbatim>\<open>AttributeError\<close>.
\<close>

definition mime_text :: "pyarg \<Rightarrow> string \<Rightarrow> error + part" where
  "mime_text x subtype =
     (case x of Str t \<Rightarrow> Inr (TextPart t subtype) | Bytes b \<Rightarrow> Inl AttributeError)"

text \<open>
  Lines 452 to 474: the parts of the root message, on which the headers \<open>hdrs\<close> were
  written at line 413. The outputs are \<^verbatim>\<open>str\<close> values, so each is encoded at
  line 459 or 468, and the bytes are handed to \<^verbatim>\<open>MIMEText\<close>.
\<close>

definition build_message ::
  "(string \<times> string) list \<Rightarrow> style \<Rightarrow> pystr \<Rightarrow> style option \<Rightarrow> pystr option \<Rightarrow>
   error + message" where
  "build_message hdrs fmt output alternate_style alternate_output =
     (case (if truthy alternate_output then
              (case mime_text
                      (Bytes (encode_utf8 (case alternate_output of None \<Rightarrow> [] | Some t \<Rightarrow> t)))
                      (if contains ''html'' (case alternate_style of None \<Rightarrow> [] | Some a \<Rightarrow> a)
                       then ''html'' else ''plain'') of
                 Inl e \<Rightarrow> Inl e
               | Inr alt_text \<Rightarrow> Inr [alt_text])
            else Inr []) of
        Inl e \<Rightarrow> Inl e
      | Inr alt_parts \<Rightarrow>
          (case mime_text (Bytes (encode_utf8 output))
                  (if contains ''html'' fmt then ''html'' else ''plain'') of
             Inl e \<Rightarrow> Inl e
           | Inr msg_text \<Rightarrow>
               Inr \<lparr>headers = hdrs,
                    preamble = ''This is a multi-part message in MIME format.'',
                    parts = (if alt_parts = [] then [msg_text]
                             else [Alternative (alt_parts @ [msg_text])])\<rparr>))"

text \<open>\<^verbatim>\<open>_get_decorators\<close>: \<^verbatim>\<open>self.decorators[:]\<close>, a new list with the same items.\<close>

definition get_decorators :: "state \<Rightarrow> addr \<times> state" where
  "get_decorators s =
     (next_free s,
      s\<lparr>lists := (lists s)(next_free s := lists s (decorators s)),
        next_free := Suc (next_free s)\<rparr>)"

text \<open>
  The chain on the list object at address \<open>a\<close>: \<^verbatim>\<open>if decorators:\<close> pop the last item
  and call it with the message and the same list object. \<^verbatim>\<open>_do_send\<close> makes the first
  step, each decorator that goes on makes the next.
\<close>

function run_decorators ::
  "env \<Rightarrow> event \<Rightarrow> addr \<Rightarrow> message \<Rightarrow> state \<Rightarrow> message \<times> state" where
  "run_decorators E ev a m s =
     (if lists s a = [] then (m, s)
      else
        (let decorator = last (lists s a);
             s1 = s\<lparr>lists := (lists s)(a := butlast (lists s a))\<rparr>;
             s2 = s1\<lparr>trace := trace s1 @ [DecorateMessage decorator (lists s1 a)]\<rparr>;
             r = decorate_message E decorator ev m
         in if snd r then run_decorators E ev a (fst r) s2 else (fst r, s2)))"
  by pat_completeness auto
termination
  by (relation "measure (\<lambda>(E, ev, a, m, s). length (lists s a))") auto

declare run_decorators.simps [simp del]

text \<open>\<^verbatim>\<open>get_delivery_queue\<close>: the queue and its thread are made at the first call.\<close>

definition get_delivery_queue :: "state \<Rightarrow> state" where
  "get_delivery_queue s =
     (case delivery_queue s of
        None \<Rightarrow> s\<lparr>delivery_queue := Some [], trace := trace s @ [StartThread]\<rparr>
      | Some q \<Rightarrow> s)"

text \<open>
  \<^verbatim>\<open>send\<close> hands the message to the configured sender (the change of the line ends to
  CRLF is part of the serialised text, which is not modelled).
\<close>

definition send :: "string \<Rightarrow> address list \<Rightarrow> message \<Rightarrow> state \<Rightarrow> state" where
  "send from_addr recipients m s = s\<lparr>trace := trace s @ [SenderSend from_addr recipients m]\<rparr>"

definition deliver :: "config \<Rightarrow> string \<Rightarrow> address list \<Rightarrow> message \<Rightarrow> state \<Rightarrow> state" where
  "deliver C from_addr recip_adds m s =
     (if use_threaded_delivery C then
        (let s = get_delivery_queue s
         in s\<lparr>delivery_queue :=
                 Some ((case delivery_queue s of None \<Rightarrow> [] | Some q \<Rightarrow> q) @
                       [(from_addr, recip_adds, m)]),
               trace := trace s @ [QueuePut from_addr recip_adds m]\<rparr>)
      else send from_addr recip_adds m s)"

text \<open>
  \<^verbatim>\<open>_do_send(transport, event, format, recipients, formatter, pubkey_ids=None)\<close>, in
  the order of its lines: the sender (382), the message id (387), the addresses and the
  policy on them (392 to 403), the return for want of addresses (404 to 406), the headers
  written to the root message (412), the body (415 to 442), the check of the encoding (445
  to 450), the parts (452 to 474), the decorators (477 to 480) and the delivery (482 to
  487). The result is \<open>Inr ()\<close> when the method returns and \<open>Inl e\<close> when it raises,
  with the state at that moment.
\<close>

definition do_send ::
  "config \<Rightarrow> env \<Rightarrow> string \<Rightarrow> event \<Rightarrow> style \<Rightarrow> rcpt list \<Rightarrow> ref \<Rightarrow> keyid list option \<Rightarrow>
   state \<Rightarrow> (error + unit) \<times> state" where
  "do_send C E transport ev fmt recipients formatter pubkey_ids s =
     (let pubkey_ids = (case pubkey_ids of None \<Rightarrow> [] | Some ids \<Rightarrow> ids);
          from_addr = from_header C E
      in case message_id C E (realm ev) of
           Inl e \<Rightarrow> (Inl e, s)
         | Inr msgid \<Rightarrow>
             (let hdrs = [(''Message-ID'', msgid), (''Date'', formatdate E),
                          (''From'', from_addr), (''Reply-To'', reply_to C)];
                  policy = recipient_policy C E (map (\<lambda>x. snd (snd x)) recipients);
                  hdrs = AList.update (fst (fst policy)) (snd (fst policy)) hdrs;
                  recip_adds = snd policy
              in if recip_adds = [] then (Inr (), s)
                 else
                   (case iteritems hdrs of
                      Inl e \<Rightarrow> (Inl e, s)
                    | Inr items \<Rightarrow>
                        (case render C E transport ev fmt formatter pubkey_ids s of
                           (Inl e, s1) \<Rightarrow> (Inl e, s1)
                         | (Inr (output, alternate_style, alternate_output), s1) \<Rightarrow>
                             (case sanity_check s1 output of
                                Inl e \<Rightarrow> (Inl e, s1)
                              | Inr _ \<Rightarrow>
                                  (case build_message items fmt output alternate_style
                                          alternate_output of
                                     Inl e \<Rightarrow> (Inl e, s1)
                                   | Inr root_message \<Rightarrow>
                                       (let gd = get_decorators s1;
                                            md = run_decorators E ev (fst gd) root_message
                                                   (snd gd)
                                        in (Inr (),
                                            deliver C from_addr recip_adds (fst md)
                                              (snd md)))))))))"

subsection \<open>Distributing an event\<close>

text \<open>
  The two loops at the end of \<^verbatim>\<open>distribute\<close>: one message for every style of a group
  that has recipients and a formatter. An exception raised by \<^verbatim>\<open>_do_send\<close> ends the loop.
\<close>

fun send_groups ::
  "config \<Rightarrow> env \<Rightarrow> string \<Rightarrow> event \<Rightarrow> (style \<times> ref) list \<Rightarrow> keyid list option \<Rightarrow>
   groups \<Rightarrow> state \<Rightarrow> (error + unit) \<times> state" where
  "send_groups C E transport ev fmts ids [] s = (Inr (), s)"
| "send_groups C E transport ev fmts ids ((k, v) # d) s =
     (case map_of fmts k of
        None \<Rightarrow> send_groups C E transport ev fmts ids d s
      | Some formatter \<Rightarrow>
          if v = [] then send_groups C E transport ev fmts ids d s
          else
            (case do_send C E transport ev k v formatter ids s of
               (Inl e, s1) \<Rightarrow> (Inl e, s1)
             | (Inr _, s1) \<Rightarrow> send_groups C E transport ev fmts ids d s1))"

text \<open>
  Lines 304 to 318: the plain group is served first, without key ids, then the encrypt
  group, each of its messages with all the key ids that were gathered.
\<close>

definition send_classified ::
  "config \<Rightarrow> env \<Rightarrow> string \<Rightarrow> event \<Rightarrow> (style \<times> ref) list \<Rightarrow> classified \<Rightarrow> state \<Rightarrow>
   (error + unit) \<times> state" where
  "send_classified C E transport ev fmts A s =
     (case send_groups C E transport ev fmts None (msgdict A) s of
        (Inl e, s1) \<Rightarrow> (Inl e, s1)
      | (Inr _, s1) \<Rightarrow>
          send_groups C E transport ev fmts (Some (msg_pubkey_ids A)) (msgdict_encrypt A) s1)"

text \<open>\<^verbatim>\<open>transports\<close> yields \<^verbatim>\<open>'email'\<close>.\<close>

definition transports :: "string list" where
  "transports = [''email'']"

definition distribute ::
  "config \<Rightarrow> env \<Rightarrow> string \<Rightarrow> recipient list \<Rightarrow> event \<Rightarrow> state \<Rightarrow> (error + unit) \<times> state" where
  "distribute C E transport recipients ev s =
     (let found = (transport \<in> set transports)
      in if \<not> enabled C \<or> \<not> found then (Inr (), s)
         else
           (let fmts = formats E transport (realm ev)
            in if fmts = [] then (Inr (), s)
               else
                 (case re_compile E (rcpt_allow_regexp C) of
                    None \<Rightarrow> (Inl ReError, s)
                  | Some rcpt_allow_re \<Rightarrow>
                      (case re_compile E (rcpt_local_regexp C) of
                         None \<Rightarrow> (Inl ReError, s)
                       | Some rcpt_local_re \<Rightarrow>
                           (let s = (if crypto C \<noteq> [] then s\<lparr>enigma := True\<rparr> else s)
                            in case classify C E rcpt_allow_re rcpt_local_re
                                      transport ev fmts recipients no_classified of
                                 Inl e \<Rightarrow> (Inl e, s)
                               | Inr A \<Rightarrow> send_classified C E transport ev fmts A s)))))"


subsection \<open>Reading the trace\<close>

text \<open>The calls made between two states.\<close>

definition new_calls :: "state \<Rightarrow> state \<Rightarrow> call list" where
  "new_calls s s' = drop (length (trace s)) (trace s')"

fun is_crypto :: "call \<Rightarrow> bool" where
  "is_crypto (Sign t k) = True"
| "is_crypto (Encrypt t ids) = True"
| "is_crypto (SignEncrypt t ids k) = True"
| "is_crypto c = False"

text \<open>
  The decorator chain as a function of the items still to be popped, the next one first:
  the message it leaves, the items it leaves unpopped and the calls it makes.
\<close>

fun chain :: "env \<Rightarrow> event \<Rightarrow> ref list \<Rightarrow> message \<Rightarrow> message \<times> ref list \<times> call list" where
  "chain E ev [] m = (m, [], [])"
| "chain E ev (d # ds) m =
     (let r = decorate_message E d ev m
      in if snd r
         then (case chain E ev ds (fst r) of
                 (m', rest, cs) \<Rightarrow> (m', rest, DecorateMessage d (rev ds) # cs))
         else (fst r, ds, [DecorateMessage d (rev ds)]))"

text \<open>
  The test of lines 274 and 275 on an address, and what the loop keeps true of the two
  groups: the encrypt group holds only tuples whose address passes the test, the plain
  group only tuples whose address fails it.
\<close>

definition wants_encryption :: "config \<Rightarrow> (string \<Rightarrow> bool) \<Rightarrow> address \<Rightarrow> bool" where
  "wants_encryption C rcpt_local_re address =
     (crypto C \<in> set [''encrypt'', ''sign,encrypt''] \<and> \<not> rcpt_local_re address)"

definition grouped_by_test :: "config \<Rightarrow> (string \<Rightarrow> bool) \<Rightarrow> classified \<Rightarrow> bool" where
  "grouped_by_test C rcpt_local_re A =
     ((\<forall>k. \<forall>r \<in> set (group_of (msgdict_encrypt A) k).
          wants_encryption C rcpt_local_re (snd (snd r))) \<and>
      (\<forall>k. \<forall>r \<in> set (group_of (msgdict A) k).
          \<not> wants_encryption C rcpt_local_re (snd (snd r))))"

subsection \<open>Example configurations\<close>

text \<open>The defaults of the options, as the class declares them.\<close>

definition default_config :: config where
  "default_config =
     \<lparr>enabled = True, email_from = ''trac@localhost'', from_name = [],
      reply_to = ''trac@localhost'', mime_encoding = ''base64'', use_public_cc = False,
      email_to = to_default, use_threaded_delivery = False,
      default_email_format = ''text/plain'', rcpt_allow_regexp = [],
      rcpt_local_regexp = [], crypto = [], private_key = None\<rparr>"

text \<open>
  Two formatters, 0 registered before 1, both for the style \<^verbatim>\<open>text/plain\<close>; no
  resolver; patterns without special characters, for which \<^verbatim>\<open>search\<close> is the test
  for a substring; a key for \<^verbatim>\<open>alice@example.com\<close> only; the key ids come as a Python
  list; decorators that change nothing and go on.
\<close>

definition example_env :: env where
  "example_env =
     \<lparr>formatters = [0, 1],
      styles = (\<lambda>f transport rlm. [''text/plain'']),
      alternative_style_for = (\<lambda>f transport rlm fmt. None),
      format = (\<lambda>f transport rlm fmt ev. ''body''),
      resolvers = [],
      get_address_for_session = (\<lambda>resolver name authed. None),
      find_by_sid_and_distributor = (\<lambda>sid authed distributor. []),
      re_compile = (\<lambda>p. Some (contains p)),
      get_pubkey_ids = (\<lambda>a. if a = ''alice@example.com'' then [''ABCD''] else []),
      ids_gt_int = list_gt_int,
      project_name = ''My Project'',
      id_seed = (\<lambda>rlm. ''http://example.org/trac.1793777400.4711.'' @ rlm),
      md5_hexdigest = (\<lambda>b. ''0123456789abcdef0123456789abcdef''),
      percent_03d = (\<lambda>n. ''042''),
      formatdate = ''Wed, 04 Nov 2026 07:30:00 -0000'',
      formataddr = (\<lambda>n a. n @ '' <'' @ a @ ''>''),
      gettext = (\<lambda>msg. msg),
      enigma_sign = (\<lambda>t k. ''signed('' @ t @ '')''),
      enigma_encrypt = (\<lambda>t ids. ''encrypted('' @ t @ '')''),
      enigma_sign_encrypt = (\<lambda>t ids k. ''signed+encrypted('' @ t @ '')''),
      decorate_message = (\<lambda>d ev m. (m, True))\<rparr>"

text \<open>The same with the order of Python 2 between a list and an int.\<close>

definition example_env_py2 :: env where
  "example_env_py2 = example_env\<lparr>ids_gt_int := list_gt_int_py2\<rparr>"

text \<open>
  A component just constructed with the default encoding; its registered decorators are
  7 and 8, in the list object at address 0.
\<close>

definition initial_state :: state where
  "initial_state =
     \<lparr>enigma = False, delivery_queue = None,
      the_charset = \<lparr>input_charset = ''utf-8'', header_encoding = Some BASE64,
                     body_encoding = Some BASE64, output_charset = Some ''utf-8''\<rparr>,
      lists = (\<lambda>a. [])(0 := [7, 8]), next_free = 1, decorators = 0, trace = []\<rparr>"

definition ticket_event :: event where
  "ticket_event = \<lparr>realm = ''ticket'', category = ''changed'', target = ''#1''\<rparr>"

text \<open>Encryption for every address but those of \<^verbatim>\<open>corp.example.com\<close>.\<close>

definition encrypt_config :: config where
  "encrypt_config = default_config\<lparr>crypto := ''encrypt'', rcpt_local_regexp := ''@corp.''\<rparr>"

text \<open>
  Bob, known by name, at a local address, and Alice at an address that is not local; and
  the groups they are expected in.
\<close>

definition bob_alice :: "recipient list" where
  "bob_alice =
     [(Some ''bob'', Some True, Some ''bob@corp.example.com''),
      (None, None, Some ''alice@example.com'')]"

definition bob_alice_classified :: classified where
  "bob_alice_classified =
     \<lparr>msgdict = [(''text/plain'', [(Some ''bob'', Some True, ''bob@corp.example.com'')])],
      msgdict_encrypt = [(''text/plain'', [(None, None, ''alice@example.com'')])],
      msg_pubkey_ids = [''ABCD'']\<rparr>"

text \<open>
  What C6 names for each of the three modes: the result of the operation on the rendered
  output, and the call that stands for it in the trace.
\<close>

definition crypto_result :: "config \<Rightarrow> env \<Rightarrow> pystr \<Rightarrow> keyid list \<Rightarrow> pystr" where
  "crypto_result C E output ids =
     (if crypto C = ''sign'' then enigma_sign E output (private_key C)
      else if crypto C = ''encrypt'' then enigma_encrypt E output ids
      else enigma_sign_encrypt E output ids (private_key C))"

definition crypto_call :: "config \<Rightarrow> pystr \<Rightarrow> keyid list \<Rightarrow> call" where
  "crypto_call C output ids =
     (if crypto C = ''sign'' then Sign output (private_key C)
      else if crypto C = ''encrypt'' then Encrypt output ids
      else SignEncrypt output ids (private_key C))"

text \<open>The option \<^verbatim>\<open>email_to\<close> set to the empty string, and set to an address.\<close>

definition blank_to_config :: config where
  "blank_to_config = default_config\<lparr>email_to := []\<rparr>"

definition ops_to_config :: config where
  "ops_to_config = default_config\<lparr>email_to := ''ops@example.com''\<rparr>"

text \<open>
  The encoding \<^verbatim>\<open>none\<close>, the component as its constructor leaves it under that
  encoding, and a formatter whose output is not ASCII (\<^verbatim>\<open>caf\<close> followed by U+00E9).
\<close>

definition ascii_config :: config where
  "ascii_config = default_config\<lparr>mime_encoding := ''none''\<rparr>"

definition ascii_state :: state where
  "ascii_state =
     initial_state\<lparr>the_charset :=
       \<lparr>input_charset = ''utf-8'', header_encoding = None, body_encoding = None,
        output_charset = Some ''ascii''\<rparr>\<rparr>"

definition latin_env :: env where
  "latin_env = example_env\<lparr>format := (\<lambda>f transport rlm fmt ev. ''caf'' @ [CHR 0xE9])\<rparr>"

text \<open>
  The mode \<^verbatim>\<open>sign,encrypt\<close>, and the component once \<^verbatim>\<open>distribute\<close> has made its
  \<^verbatim>\<open>CryptoTxt\<close>.
\<close>

definition sign_encrypt_config :: config where
  "sign_encrypt_config =
     default_config\<lparr>crypto := ''sign,encrypt'', rcpt_local_regexp := ''@corp.''\<rparr>"

definition crypto_state :: state where
  "crypto_state = initial_state\<lparr>enigma := True\<rparr>"

text \<open>
  Two formatters with a style each, a preference of Dave for \<^verbatim>\<open>text/html\<close>, and the
  two recipients Bob and Dave: one message for each of the two styles.
\<close>

definition two_styles_env :: env where
  "two_styles_env =
     example_env\<lparr>styles := (\<lambda>f transport rlm. if f = 0 then [''text/plain''] else [''text/html'']),
                 find_by_sid_and_distributor :=
                   (\<lambda>sid authed distributor. if sid = ''dave'' then [Some ''text/html''] else [])\<rparr>"

definition bob_dave :: "recipient list" where
  "bob_dave =
     [(Some ''bob'', Some True, Some ''bob@example.com''),
      (Some ''dave'', Some True, Some ''dave@example.com'')]"

definition bob_dave_classified :: classified where
  "bob_dave_classified =
     \<lparr>msgdict = [(''text/plain'', [(Some ''bob'', Some True, ''bob@example.com'')]),
                 (''text/html'', [(Some ''dave'', Some True, ''dave@example.com'')])],
      msgdict_encrypt = [], msg_pubkey_ids = []\<rparr>"

section \<open>Results\<close>

subsection \<open>The catalog\<close>

lemma map_of_fold_update:
  "map_of (fold (\<lambda>style. AList.update style f) sts d) s =
     (if s \<in> set sts then Some f else map_of d s)"
  by (induction sts arbitrary: d) (auto simp: update_conv')

lemma map_of_formats_fold:
  "map_of (fold (\<lambda>f d. fold (\<lambda>style. AList.update style f) (sty f) d) fs d) s =
     (case filter (\<lambda>f. s \<in> set (sty f)) fs of
        [] \<Rightarrow> map_of d s
      | g # gs \<Rightarrow> Some (last (g # gs)))"
proof (induction fs arbitrary: d)
  case Nil
  show ?case by simp
next
  case (Cons f fs)
  show ?case
  proof (cases "s \<in> set (sty f)")
    case True
    then show ?thesis
      by (simp add: Cons.IH map_of_fold_update split: list.splits)
  next
    case False
    then show ?thesis
      by (simp add: Cons.IH map_of_fold_update split: list.splits)
  qed
qed

text \<open>
  C3 as stated: when two formatters advertise the same style, the catalog maps the style
  to the one registered earlier. It fails for the two formatters of \<open>example_env\<close>:
  0 is registered before 1, both advertise \<^verbatim>\<open>text/plain\<close>, and the catalog holds 1.
\<close>

theorem formats_first_registration_counterexample:
  "formatters example_env = [0, 1] \<and>
   styles example_env 0 ''email'' ''ticket'' = [''text/plain''] \<and>
   styles example_env 1 ''email'' ''ticket'' = [''text/plain''] \<and>
   map_of (formats example_env ''email'' ''ticket'') ''text/plain'' \<noteq> Some 0 \<and>
   map_of (formats example_env ''email'' ''ticket'') ''text/plain'' = Some 1"
  by (simp add: formats_def example_env_def)

text \<open>
  C3 as amended: the catalog maps a style to the formatter registered last among those
  that advertise it for the transport and the realm, and holds no entry for a style that
  none advertises. A later formatter overrides an earlier one.
\<close>

theorem formats_last_registration_wins:
  "map_of (formats E transport rlm) s =
     (case filter (\<lambda>f. s \<in> set (styles E f transport rlm)) (formatters E) of
        [] \<Rightarrow> None
      | g # gs \<Rightarrow> Some (last (g # gs)))"
  unfolding formats_def by (simp add: map_of_formats_fold split: list.splits)

theorem formats_last_registration_wins_witness:
  "map_of (formats example_env ''email'' ''wiki'') ''text/plain'' = Some 1 \<and>
   map_of (formats example_env ''email'' ''wiki'') ''text/html'' = None"
  using formats_last_registration_wins [of example_env "''email''" "''wiki''" "''text/plain''"]
    formats_last_registration_wins [of example_env "''email''" "''wiki''" "''text/html''"]
  by (simp add: example_env_def)

subsection \<open>The two groups\<close>

lemma map_of_setdefault_add:
  "map_of (setdefault_add k x d) k' =
     (if k' = k
      then Some (case map_of d k of None \<Rightarrow> [x] | Some v \<Rightarrow> if x \<in> set v then v else v @ [x])
      else map_of d k')"
  by (simp add: setdefault_add_def update_conv' map_add_def split: option.splits)

lemma set_group_setdefault_add_same:
  "set (group_of (setdefault_add k x d) k) = insert x (set (group_of d k))"
proof (cases "map_of d k")
  case None
  then show ?thesis
    by (simp only: group_of_def map_of_setdefault_add if_True option.case) simp
next
  case (Some v)
  show ?thesis
  proof (cases "x \<in> set v")
    case True
    with Some show ?thesis
      by (simp only: group_of_def map_of_setdefault_add if_True option.case) auto
  next
    case False
    with Some show ?thesis
      by (simp only: group_of_def map_of_setdefault_add if_True option.case) simp
  qed
qed

lemma set_group_setdefault_add_other:
  "k' \<noteq> k \<Longrightarrow> set (group_of (setdefault_add k x d) k') = set (group_of d k')"
  by (simp only: group_of_def map_of_setdefault_add) simp

lemma set_group_setdefault_add:
  "set (group_of (setdefault_add k x d) k') =
     (if k' = k then insert x (set (group_of d k)) else set (group_of d k'))"
  by (cases "k' = k") (simp_all add: set_group_setdefault_add_same
      set_group_setdefault_add_other)

text \<open>
  What one pass of the loop body can do when it does not raise: nothing, or add the tuple
  to the encrypt group together with its key ids, or add the tuple to the plain group.
\<close>

lemma classify_one_cases:
  assumes "classify_one C E allow loc transport ev fmts rcp A = Inr A'"
  shows "A' = A \<or>
    (\<exists>fmt address. chosen_format C E transport ev fmts rcp = Some fmt \<and> fmt \<noteq> [] \<and>
        found_address E rcp = Some address \<and> address \<noteq> [] \<and> allow address \<and>
        ((wants_encryption C loc address \<and>
          A' = A\<lparr>msgdict_encrypt := setdefault_add fmt (fst rcp, fst (snd rcp), address)
                     (msgdict_encrypt A),
                 msg_pubkey_ids := msg_pubkey_ids A @ get_pubkey_ids E address\<rparr>) \<or>
         (\<not> wants_encryption C loc address \<and>
          A' = A\<lparr>msgdict := setdefault_add fmt (fst rcp, fst (snd rcp), address)
                     (msgdict A)\<rparr>)))"
  using assms
  by (auto simp: classify_one_def wants_encryption_def Let_def
           split: prod.splits option.splits if_splits sum.splits bool.splits)

lemma classify_one_inv:
  assumes "classify_one C E allow loc transport ev fmts rcp A = Inr A'"
    and "grouped_by_test C loc A"
  shows "grouped_by_test C loc A'"
proof -
  from assms(2) have
    enc: "\<And>k n a b. (n, a, b) \<in> set (group_of (msgdict_encrypt A) k) \<Longrightarrow>
                wants_encryption C loc b"
    unfolding grouped_by_test_def by fastforce
  from assms(2) have
    pln: "\<And>k n a b. (n, a, b) \<in> set (group_of (msgdict A) k) \<Longrightarrow>
                \<not> wants_encryption C loc b"
    unfolding grouped_by_test_def by fastforce
  from classify_one_cases [OF assms(1)] show ?thesis
    unfolding grouped_by_test_def
    by (auto simp: set_group_setdefault_add dest: enc pln split: if_splits)
qed

lemma classify_inv:
  "classify C E allow loc transport ev fmts rcps A = Inr A' \<Longrightarrow>
   grouped_by_test C loc A \<Longrightarrow> grouped_by_test C loc A'"
proof (induction rcps arbitrary: A)
  case Nil
  then show ?case by simp
next
  case (Cons rcp rcps)
  from Cons.prems(1) obtain A1 where
    one: "classify_one C E allow loc transport ev fmts rcp A = Inr A1" and
    rest: "classify C E allow loc transport ev fmts rcps A1 = Inr A'"
    by (auto split: sum.splits)
  show ?case
    by (rule Cons.IH [OF rest classify_one_inv [OF one Cons.prems(2)]])
qed

lemma grouped_by_test_no_classified: "grouped_by_test C loc no_classified"
  by (simp add: grouped_by_test_def no_classified_def group_of_def)

text \<open>The loop only adds to the plain group.\<close>

lemma classify_one_mono:
  assumes "classify_one C E allow loc transport ev fmts rcp A = Inr A'"
  shows "set (group_of (msgdict A) k) \<subseteq> set (group_of (msgdict A') k)"
  using classify_one_cases [OF assms]
  by (auto simp: set_group_setdefault_add)

lemma classify_mono:
  "classify C E allow loc transport ev fmts rcps A = Inr A' \<Longrightarrow>
   set (group_of (msgdict A) k) \<subseteq> set (group_of (msgdict A') k)"
proof (induction rcps arbitrary: A)
  case Nil
  then show ?case by simp
next
  case (Cons rcp rcps)
  from Cons.prems obtain A1 where
    one: "classify_one C E allow loc transport ev fmts rcp A = Inr A1" and
    rest: "classify C E allow loc transport ev fmts rcps A1 = Inr A'"
    by (auto split: sum.splits)
  from classify_one_mono [OF one] Cons.IH [OF rest] show ?case by blast
qed

lemma classify_one_local:
  assumes "chosen_format C E transport ev fmts rcp = Some fmt" "fmt \<noteq> []"
    "found_address E rcp = Some address" "address \<noteq> []" "allow address" "loc address"
  shows "classify_one C E allow loc transport ev fmts rcp A =
           Inr (A\<lparr>msgdict := setdefault_add fmt (fst rcp, fst (snd rcp), address) (msgdict A)\<rparr>)"
  using assms by (simp add: classify_one_def split: prod.splits)

lemma classify_local_member:
  "classify C E allow loc transport ev fmts rcps A = Inr A' \<Longrightarrow> rcp \<in> set rcps \<Longrightarrow>
   chosen_format C E transport ev fmts rcp = Some fmt \<Longrightarrow> fmt \<noteq> [] \<Longrightarrow>
   found_address E rcp = Some address \<Longrightarrow> address \<noteq> [] \<Longrightarrow> allow address \<Longrightarrow>
   loc address \<Longrightarrow>
   (fst rcp, fst (snd rcp), address) \<in> set (group_of (msgdict A') fmt)"
proof (induction rcps arbitrary: A)
  case Nil
  then show ?case by simp
next
  case (Cons r rcps)
  from Cons.prems(1) obtain A1 where
    one: "classify_one C E allow loc transport ev fmts r A = Inr A1" and
    rest: "classify C E allow loc transport ev fmts rcps A1 = Inr A'"
    by (auto split: sum.splits)
  show ?case
  proof (cases "rcp = r")
    case True
    with one Cons.prems have
      "A1 = A\<lparr>msgdict := setdefault_add fmt (fst rcp, fst (snd rcp), address) (msgdict A)\<rparr>"
      by (simp add: classify_one_local)
    then have "(fst rcp, fst (snd rcp), address) \<in> set (group_of (msgdict A1) fmt)"
      by (simp add: set_group_setdefault_add)
    with classify_mono [OF rest] show ?thesis by blast
  next
    case False
    with Cons.prems have "rcp \<in> set rcps" by simp
    from Cons.IH [OF rest this Cons.prems(3-8)] show ?thesis .
  qed
qed

lemmas classify_simps =
  classify_one_def chosen_format_def wanted_format_def found_address_def
  get_preferred_format_def get_default_format_def truthy_def formats_def
  example_env_py2_def example_env_def encrypt_config_def default_config_def
  ticket_event_def no_classified_def setdefault_add_def list_gt_int_py2_def list_gt_int_def

text \<open>
  A run of the loop that ends: Bob's address is local, Alice's is not and has a key; the
  comparison of the key ids with 0 is the one of Python 2.
\<close>

lemma classify_bob_alice:
  "classify encrypt_config example_env_py2 (contains []) (contains ''@corp.'') ''email''
     ticket_event (formats example_env_py2 ''email'' ''ticket'') bob_alice no_classified =
   Inr bob_alice_classified"
  by (simp add: classify_simps bob_alice_def bob_alice_classified_def)

text \<open>
  The failures that C2 lists, but for the missing key, do only skip the recipient: with no
  format, no address or an address that the allow pattern rejects, the loop goes on with
  the groups as they were.
\<close>

lemma classify_one_skips:
  "chosen_format C E transport ev fmts rcp = None \<or>
   chosen_format C E transport ev fmts rcp = Some [] \<or>
   \<not> truthy (found_address E rcp) \<or>
   (\<exists>address. found_address E rcp = Some address \<and> \<not> allow address) \<Longrightarrow>
   classify_one C E allow loc transport ev fmts rcp A = Inr A"
  by (auto simp: classify_one_def truthy_def split: prod.splits option.splits)

text \<open>
  C1: under the mode \<^verbatim>\<open>encrypt\<close> or \<^verbatim>\<open>sign,encrypt\<close>, a recipient whose address is
  not local is added to the encrypt group with its key ids when \<^verbatim>\<open>get_pubkey_ids\<close>
  returns some, and is dropped when it returns none. The code decides this by
  \<^verbatim>\<open>pubkey_ids > 0\<close>, on a list. Evaluated under \<open>encrypt_config\<close>: with the key ids
  as a Python 3 list, Alice (one key) and Carol (no key) both end the loop with
  \<^verbatim>\<open>TypeError\<close>; with the order of Python 2, Carol is added to the encrypt group.
\<close>

theorem pubkey_comparison_evaluated:
  "get_pubkey_ids example_env ''alice@example.com'' = [''ABCD''] \<and>
   classify_one encrypt_config example_env (contains []) (contains ''@corp.'') ''email''
     ticket_event (formats example_env ''email'' ''ticket'')
     (Some ''alice'', Some True, Some ''alice@example.com'') no_classified = Inl TypeError \<and>
   get_pubkey_ids example_env ''carol@example.com'' = [] \<and>
   classify_one encrypt_config example_env (contains []) (contains ''@corp.'') ''email''
     ticket_event (formats example_env ''email'' ''ticket'')
     (Some ''carol'', Some True, Some ''carol@example.com'') no_classified = Inl TypeError \<and>
   classify_one encrypt_config example_env_py2 (contains []) (contains ''@corp.'') ''email''
     ticket_event (formats example_env_py2 ''email'' ''ticket'')
     (Some ''carol'', Some True, Some ''carol@example.com'') no_classified =
     Inr \<lparr>msgdict = [],
          msgdict_encrypt =
            [(''text/plain'', [(Some ''carol'', Some True, ''carol@example.com'')])],
          msg_pubkey_ids = []\<rparr>"
  by (simp add: classify_simps)

theorem pubkey_comparison_evaluated_witness:
  "classify_one encrypt_config example_env (contains []) (contains ''@corp.'') ''email''
     ticket_event (formats example_env ''email'' ''ticket'')
     (Some ''carol'', Some True, Some ''carol@example.com'') no_classified \<noteq>
   Inr no_classified"
  using pubkey_comparison_evaluated by simp

text \<open>
  C2: the loop over the recipients never raises on account of one recipient; a recipient
  without a public key is only skipped. Evaluated: with Carol (no key) before Bob (local)
  in the list, \<^verbatim>\<open>distribute\<close> raises \<^verbatim>\<open>TypeError\<close> and nothing is sent, to Bob
  no more than to Carol.
\<close>

theorem distribute_raises_on_missing_pubkey:
  "distribute encrypt_config example_env ''email''
     [(Some ''carol'', Some True, Some ''carol@example.com''),
      (Some ''bob'', Some True, Some ''bob@corp.example.com'')] ticket_event initial_state =
     (Inl TypeError, initial_state\<lparr>enigma := True\<rparr>) \<and>
   trace (initial_state\<lparr>enigma := True\<rparr>) = []"
  by (simp add: distribute_def transports_def classify_simps initial_state_def)

theorem distribute_raises_on_missing_pubkey_witness:
  "fst (distribute encrypt_config example_env ''email''
     [(Some ''carol'', Some True, Some ''carol@example.com''),
      (Some ''bob'', Some True, Some ''bob@corp.example.com'')] ticket_event initial_state) =
   Inl TypeError"
  using distribute_raises_on_missing_pubkey by simp

text \<open>
  C7: a recipient whose address matches \<^verbatim>\<open>rcpt_local_regexp\<close> is never placed in the
  encrypt group, whatever the crypto mode, and is classified into the plain group. For a
  loop that has ended: no tuple of the encrypt group has an address that matches the
  pattern, and every recipient of the list that reaches the test on the local pattern
  (a format was chosen for it, an address was found and the address matches
  \<^verbatim>\<open>rcpt_allow_regexp\<close>) with an address that matches it is in the plain group, under
  its format.
\<close>

theorem local_recipient_never_encrypted:
  assumes "classify C E rcpt_allow_re rcpt_local_re transport ev fmts recipients no_classified
             = Inr A"
  shows "(\<forall>k. \<forall>r \<in> set (group_of (msgdict_encrypt A) k). \<not> rcpt_local_re (snd (snd r))) \<and>
    (\<forall>rcp \<in> set recipients. \<forall>fmt address.
        chosen_format C E transport ev fmts rcp = Some fmt \<and> fmt \<noteq> [] \<and>
        found_address E rcp = Some address \<and> address \<noteq> [] \<and>
        rcpt_allow_re address \<and> rcpt_local_re address \<longrightarrow>
        (fst rcp, fst (snd rcp), address) \<in> set (group_of (msgdict A) fmt))"
proof -
  have "grouped_by_test C rcpt_local_re A"
    by (rule classify_inv [OF assms grouped_by_test_no_classified])
  then have "\<forall>k. \<forall>r \<in> set (group_of (msgdict_encrypt A) k). \<not> rcpt_local_re (snd (snd r))"
    by (simp add: grouped_by_test_def wants_encryption_def)
  moreover have "\<forall>rcp \<in> set recipients. \<forall>fmt address.
        chosen_format C E transport ev fmts rcp = Some fmt \<and> fmt \<noteq> [] \<and>
        found_address E rcp = Some address \<and> address \<noteq> [] \<and>
        rcpt_allow_re address \<and> rcpt_local_re address \<longrightarrow>
        (fst rcp, fst (snd rcp), address) \<in> set (group_of (msgdict A) fmt)"
    using classify_local_member [OF assms] by blast
  ultimately show ?thesis by blast
qed

theorem local_recipient_never_encrypted_witness:
  "classify encrypt_config example_env_py2 (contains []) (contains ''@corp.'') ''email''
     ticket_event (formats example_env_py2 ''email'' ''ticket'') bob_alice no_classified =
     Inr bob_alice_classified \<and>
   contains ''@corp.'' ''bob@corp.example.com'' \<and>
   (Some ''bob'', Some True, ''bob@corp.example.com'') \<in>
     set (group_of (msgdict bob_alice_classified) ''text/plain'') \<and>
   (Some ''bob'', Some True, ''bob@corp.example.com'') \<notin>
     set (group_of (msgdict_encrypt bob_alice_classified) ''text/plain'') \<and>
   \<not> contains ''@corp.'' ''alice@example.com'' \<and>
   (None, None, ''alice@example.com'') \<in>
     set (group_of (msgdict_encrypt bob_alice_classified) ''text/plain'')"
  using local_recipient_never_encrypted [OF classify_bob_alice] classify_bob_alice
  by (simp add: group_of_def bob_alice_classified_def)

text \<open>
  C8: within one call of \<^verbatim>\<open>distribute\<close> no tuple is in both groups: when the loop has
  ended, what the plain group holds for a style and what the encrypt group holds for a
  style, the same or another, have no tuple in common.
\<close>

theorem plain_and_encrypt_groups_disjoint:
  assumes "classify C E rcpt_allow_re rcpt_local_re transport ev fmts recipients no_classified
             = Inr A"
  shows "set (group_of (msgdict A) k) \<inter> set (group_of (msgdict_encrypt A) k') = {}"
  using classify_inv [OF assms grouped_by_test_no_classified]
  by (auto simp: grouped_by_test_def)

theorem plain_and_encrypt_groups_disjoint_witness:
  "classify encrypt_config example_env_py2 (contains []) (contains ''@corp.'') ''email''
     ticket_event (formats example_env_py2 ''email'' ''ticket'') bob_alice no_classified =
     Inr bob_alice_classified \<and>
   group_of (msgdict bob_alice_classified) ''text/plain'' \<noteq> [] \<and>
   group_of (msgdict_encrypt bob_alice_classified) ''text/plain'' \<noteq> [] \<and>
   set (group_of (msgdict bob_alice_classified) ''text/plain'') \<inter>
   set (group_of (msgdict_encrypt bob_alice_classified) ''text/plain'') = {}"
  using plain_and_encrypt_groups_disjoint [OF classify_bob_alice, of "''text/plain''"
      "''text/plain''"] classify_bob_alice
  by (simp add: group_of_def bob_alice_classified_def)

subsection \<open>The decorator chain\<close>

text \<open>
  Unfolding \<open>run_decorators\<close> once, and what it computes: the message, the items left
  in the list object it pops and the calls are those of \<open>chain\<close>; nothing else of the
  state changes.
\<close>

lemma run_decorators_empty: "lists s a = [] \<Longrightarrow> run_decorators E ev a m s = (m, s)"
  by (subst run_decorators.simps) simp

lemma run_decorators_step:
  "lists s a = xs @ [d] \<Longrightarrow>
   run_decorators E ev a m s =
     (if snd (decorate_message E d ev m)
      then run_decorators E ev a (fst (decorate_message E d ev m))
             (s\<lparr>lists := (lists s)(a := xs), trace := trace s @ [DecorateMessage d xs]\<rparr>)
      else (fst (decorate_message E d ev m),
            s\<lparr>lists := (lists s)(a := xs), trace := trace s @ [DecorateMessage d xs]\<rparr>))"
  by (subst run_decorators.simps) (simp add: Let_def)

lemma run_decorators_chain:
  "fst (run_decorators E ev a m s) = fst (chain E ev (rev (lists s a)) m) \<and>
   lists (snd (run_decorators E ev a m s)) =
     (lists s)(a := rev (fst (snd (chain E ev (rev (lists s a)) m)))) \<and>
   trace (snd (run_decorators E ev a m s)) =
     trace s @ snd (snd (chain E ev (rev (lists s a)) m)) \<and>
   next_free (snd (run_decorators E ev a m s)) = next_free s \<and>
   decorators (snd (run_decorators E ev a m s)) = decorators s \<and>
   delivery_queue (snd (run_decorators E ev a m s)) = delivery_queue s \<and>
   enigma (snd (run_decorators E ev a m s)) = enigma s \<and>
   the_charset (snd (run_decorators E ev a m s)) = the_charset s"
proof (induction E ev a m s rule: run_decorators.induct)
  case (1 E ev a m s)
  show ?case
  proof (cases "lists s a = []")
    case True
    then show ?thesis
      by (auto simp: run_decorators_empty fun_eq_iff)
  next
    case False
    then obtain xs d where xs: "lists s a = xs @ [d]"
      by (metis append_butlast_last_id)
    show ?thesis
    proof (cases "snd (decorate_message E d ev m)")
      case True
      from "1.IH" [OF False refl refl refl refl] True xs
      show ?thesis
        by (simp add: run_decorators_step [OF xs] split_beta Let_def fun_eq_iff)
    next
      case False
      with xs show ?thesis
        by (simp add: run_decorators_step [OF xs] Let_def fun_eq_iff)
    qed
  qed
qed

text \<open>
  The chain of lines 477 to 480 pops the copy that \<^verbatim>\<open>_get_decorators\<close> made: the
  registered list keeps its items, and the decorators called are those of the whole
  registered list.
\<close>

lemma copy_keeps_registered_list:
  assumes "decorators s < next_free s"
  shows "lists (snd (run_decorators E ev (fst (get_decorators s)) m (snd (get_decorators s))))
           (decorators s) = lists s (decorators s) \<and>
         trace (snd (run_decorators E ev (fst (get_decorators s)) m (snd (get_decorators s)))) =
           trace s @ snd (snd (chain E ev (rev (lists s (decorators s))) m))"
  using run_decorators_chain [of E ev "fst (get_decorators s)" m "snd (get_decorators s)"] assms
  by (simp add: get_decorators_def)

subsection \<open>The message id\<close>

text \<open>
  \<^verbatim>\<open>_message_id\<close> raises \<^verbatim>\<open>TypeError\<close> whatever the realm, the project and the
  configuration, and \<^verbatim>\<open>_do_send\<close> calls it at line 387, before it has read the
  recipients, called a collaborator or changed anything: every call of \<^verbatim>\<open>_do_send\<close>
  raises \<^verbatim>\<open>TypeError\<close> in the state it was called in.
\<close>

lemma message_id_raises: "message_id C E rlm = Inl TypeError"
  by (simp add: message_id_def hashlib_md5_def)

lemma do_send_raises:
  "do_send C E transport ev fmt recipients formatter pubkey_ids s = (Inl TypeError, s)"
  by (simp add: do_send_def message_id_raises)

text \<open>
  So the loops at the end of \<^verbatim>\<open>distribute\<close> end at the first group that has
  recipients and a formatter, and send nothing.
\<close>

lemma send_groups_raises:
  "send_groups C E transport ev fmts ids d s =
     (if list_ex (\<lambda>kv. map_of fmts (fst kv) \<noteq> None \<and> snd kv \<noteq> []) d
      then (Inl TypeError, s) else (Inr (), s))"
  by (induction d) (auto simp: do_send_raises split: option.splits)

subsection \<open>One message\<close>

text \<open>
  C9: when the list of addresses is empty after the policy on visible recipients has been
  applied, \<^verbatim>\<open>_do_send\<close> returns as a no-op. Evaluated with the default configuration
  and no recipient: the policy leaves the list empty, and the call does not return, it
  raises \<^verbatim>\<open>TypeError\<close> from line 387, which comes before the test of line 404. The
  state is the one of the call: nothing was rendered, decorated or sent.
\<close>

theorem no_recipients_raises_type_error:
  "snd (recipient_policy default_config example_env (map (\<lambda>x. snd (snd x)) [])) = [] \<and>
   do_send default_config example_env ''email'' ticket_event ''text/plain'' [] 1 None
     initial_state = (Inl TypeError, initial_state)"
  by (simp add: do_send_def message_id_def hashlib_md5_def recipient_policy_def
      default_config_def)

theorem no_recipients_raises_type_error_witness:
  "fst (do_send default_config example_env ''email'' ticket_event ''text/plain'' [] 1 None
     initial_state) \<noteq> Inr ()"
  using no_recipients_raises_type_error by simp

text \<open>
  C4 as stated: with public CC disabled and the option \<^verbatim>\<open>email_to\<close> empty, the
  assembled message carries the To header \<^verbatim>\<open>undisclosed-recipients: ;\<close>. It fails
  for the empty string: lines 394 to 403 compare the option with its default, not with
  the empty string, and write a pair of double quotes; and the call of \<^verbatim>\<open>_do_send\<close>
  raises \<^verbatim>\<open>TypeError\<close>, so that no message carries a header at all.
\<close>

theorem empty_to_option_no_undisclosed_header:
  "email_to blank_to_config = [] \<and> \<not> use_public_cc blank_to_config \<and>
   recipient_policy blank_to_config example_env [''bob@example.com''] =
     ((''To'', [CHR 0x22, CHR 0x22]), [''bob@example.com'']) \<and>
   fst (fst (recipient_policy blank_to_config example_env [''bob@example.com''])) = ''To'' \<and>
   snd (fst (recipient_policy blank_to_config example_env [''bob@example.com''])) \<noteq>
     ''undisclosed-recipients: ;'' \<and>
   do_send blank_to_config example_env ''email'' ticket_event ''text/plain''
     [(Some ''bob'', Some True, ''bob@example.com'')] 1 None initial_state =
     (Inl TypeError, initial_state)"
  by (simp add: do_send_def message_id_def hashlib_md5_def recipient_policy_def
      blank_to_config_def default_config_def to_default_def)

text \<open>
  C4 as amended: with public CC disabled, the header that lines 394 to 403 write is To;
  its value is the translation of \<^verbatim>\<open>undisclosed-recipients: ;\<close> when the option
  \<^verbatim>\<open>email_to\<close> has its default value (as it has when unset), and otherwise the value
  of the option between double quotes; in the second case a value that is not empty is
  also appended to the list of addresses, and in every other case the list is left as it
  was. What becomes of the header and of the list after these lines is not part of the
  statement.
\<close>

theorem blind_cc_policy:
  assumes "\<not> use_public_cc C"
  shows "fst (fst (recipient_policy C E recip_adds)) = ''To'' \<and>
         snd (fst (recipient_policy C E recip_adds)) =
           (if email_to C = to_default then gettext E ''undisclosed-recipients: ;''
            else [CHR 0x22] @ email_to C @ [CHR 0x22]) \<and>
         snd (recipient_policy C E recip_adds) =
           recip_adds @
             (if email_to C \<noteq> to_default \<and> email_to C \<noteq> [] then [email_to C] else [])"
  using assms by (simp add: recipient_policy_def)

theorem blind_cc_policy_witness:
  "\<not> use_public_cc ops_to_config \<and>
   recipient_policy ops_to_config example_env [''bob@example.com''] =
     ((''To'', [CHR 0x22] @ ''ops@example.com'' @ [CHR 0x22]),
      [''bob@example.com'', ''ops@example.com'']) \<and>
   \<not> use_public_cc default_config \<and>
   recipient_policy default_config example_env [''bob@example.com''] =
     ((''To'', ''undisclosed-recipients: ;''), [''bob@example.com''])"
  using blind_cc_policy [of ops_to_config example_env "[''bob@example.com'']"]
    blind_cc_policy [of default_config example_env "[''bob@example.com'']"]
  by (simp add: ops_to_config_def default_config_def to_default_def example_env_def
      prod_eq_iff)

text \<open>
  The check of lines 445 to 450 never raises a \<^verbatim>\<open>TracError\<close>: \<^verbatim>\<open>str.encode\<close>
  does not raise the exception that the handler waits for.
\<close>

lemma sanity_check_never_trac_error: "sanity_check s output \<noteq> Inl (TracError msg)"
  by (simp add: sanity_check_def encode_ascii_def)

text \<open>
  C5: with the encoding \<^verbatim>\<open>none\<close> and a body that is not ASCII, \<^verbatim>\<open>_do_send\<close> fails
  with a \<^verbatim>\<open>TracError\<close> and nothing is sent. Evaluated under \<open>ascii_config\<close>, whose
  constructor leaves no body encoding, with a formatter whose output is not ASCII: the
  call raises \<^verbatim>\<open>TypeError\<close> from line 387, before the formatter is called, and the
  state is the one of the call. The check of lines 445 to 450, on that output, raises
  \<^verbatim>\<open>UnicodeEncodeError\<close>, which the handler of line 448 does not catch.
\<close>

theorem non_ascii_body_raises_type_error:
  "init_pref_encoding ascii_config = Inr (the_charset ascii_state) \<and>
   body_encoding (the_charset ascii_state) = None \<and>
   format latin_env 1 ''email'' (realm ticket_event) ''text/plain'' ticket_event =
     ''caf'' @ [CHR 0xE9] \<and>
   do_send ascii_config latin_env ''email'' ticket_event ''text/plain''
     [(Some ''bob'', Some True, ''bob@example.com'')] 1 None ascii_state =
     (Inl TypeError, ascii_state) \<and>
   sanity_check ascii_state (''caf'' @ [CHR 0xE9]) = Inl UnicodeEncodeError"
  by (simp add: init_pref_encoding_def lower_def ascii_config_def ascii_state_def
      default_config_def latin_env_def example_env_def do_send_def message_id_def
      hashlib_md5_def sanity_check_def encode_ascii_def)

theorem non_ascii_body_raises_type_error_witness:
  "fst (do_send ascii_config latin_env ''email'' ticket_event ''text/plain''
     [(Some ''bob'', Some True, ''bob@example.com'')] 1 None ascii_state) \<noteq>
   Inl (TracError ''Ticket contains non-ASCII chars. Please change encoding setting'')"
  using non_ascii_body_raises_type_error by simp

text \<open>
  Lines 415 to 429 by themselves: with one of the three modes and key ids, the output is
  what the operation of the mode makes of the formatter's output, no alternative is asked
  for, and the calls are one to the formatter and one to the crypto engine.
\<close>

lemma render_crypto:
  assumes "crypto C \<in> set [''sign'', ''encrypt'', ''sign,encrypt'']" "ids \<noteq> []"
    and "render C E transport ev fmt formatter ids s = (Inr (output, a, b), s1)"
  shows "output = crypto_result C E (format E formatter transport (realm ev) fmt ev) ids \<and>
         a = None \<and> b = None \<and>
         trace s1 = trace s @ [Format formatter fmt,
           crypto_call C (format E formatter transport (realm ev) fmt ev) ids]"
  using assms
  by (auto simp: render_def crypto_result_def crypto_call_def Let_def split: if_splits)

text \<open>
  C6: with a crypto mode and a list of key ids that is not empty, the body of the
  assembled message is the result of the operation of the mode, applied once to the
  formatter's output. Evaluated for Alice under the mode \<^verbatim>\<open>sign,encrypt\<close> with the key
  id \<^verbatim>\<open>ABCD\<close>: the call raises \<^verbatim>\<open>TypeError\<close> from line 387; no message is
  assembled, the formatter is not called and no crypto operation is applied.
\<close>

theorem crypto_never_applied:
  "crypto sign_encrypt_config = ''sign,encrypt'' \<and> enigma crypto_state \<and>
   do_send sign_encrypt_config example_env ''email'' ticket_event ''text/plain''
     [(None, None, ''alice@example.com'')] 1 (Some [''ABCD'']) crypto_state =
     (Inl TypeError, crypto_state) \<and>
   filter is_crypto
     (new_calls crypto_state
        (snd (do_send sign_encrypt_config example_env ''email'' ticket_event ''text/plain''
                [(None, None, ''alice@example.com'')] 1 (Some [''ABCD'']) crypto_state))) = []"
  by (simp add: do_send_def message_id_def hashlib_md5_def new_calls_def
      sign_encrypt_config_def default_config_def crypto_state_def)

theorem crypto_never_applied_witness:
  "SignEncrypt ''body'' [''ABCD''] None \<notin>
   set (trace (snd (do_send sign_encrypt_config example_env ''email'' ticket_event
     ''text/plain'' [(None, None, ''alice@example.com'')] 1 (Some [''ABCD'']) crypto_state)))"
  using crypto_never_applied by (simp add: crypto_state_def initial_state_def)

subsection \<open>Several messages\<close>

lemma classify_bob_dave:
  "classify default_config two_styles_env (contains []) (contains []) ''email'' ticket_event
     (formats two_styles_env ''email'' ''ticket'') bob_dave no_classified =
   Inr bob_dave_classified"
  by (simp add: classify_simps two_styles_env_def bob_dave_def bob_dave_classified_def)

text \<open>
  C10: every call of \<^verbatim>\<open>_do_send\<close> starts the decorator chain from a copy of the
  registered list, so that each of the messages of one \<^verbatim>\<open>distribute\<close> sees the whole
  chain. Evaluated with the registered decorators 7 and 8 and two recipients in two
  groups, Bob for \<^verbatim>\<open>text/plain\<close> and Dave for \<^verbatim>\<open>text/html\<close>: \<^verbatim>\<open>distribute\<close>
  raises \<^verbatim>\<open>TypeError\<close> at the first message, from line 387; the call for the second
  group, made by itself, raises too; no decorator is called for either message.
\<close>

theorem decorators_never_run:
  "lists initial_state (decorators initial_state) = [7, 8] \<and>
   classify default_config two_styles_env (contains []) (contains []) ''email'' ticket_event
     (formats two_styles_env ''email'' ''ticket'') bob_dave no_classified =
     Inr bob_dave_classified \<and>
   distribute default_config two_styles_env ''email'' bob_dave ticket_event initial_state =
     (Inl TypeError, initial_state) \<and>
   do_send default_config two_styles_env ''email'' ticket_event ''text/html''
     [(Some ''dave'', Some True, ''dave@example.com'')] 1 None initial_state =
     (Inl TypeError, initial_state) \<and>
   trace initial_state = []"
proof -
  have f: "formats two_styles_env ''email'' ''ticket'' = [(''text/plain'', 0), (''text/html'', 1)]"
    by (simp add: formats_def two_styles_env_def example_env_def)
  have r: "re_compile two_styles_env [] = Some (contains [])"
    by (simp add: two_styles_env_def example_env_def)
  have c: "enabled default_config" "crypto default_config = []"
    "rcpt_allow_regexp default_config = []" "rcpt_local_regexp default_config = []"
    by (simp_all add: default_config_def)
  have d: "distribute default_config two_styles_env ''email'' bob_dave ticket_event
      initial_state = (Inl TypeError, initial_state)"
    using classify_bob_dave
    by (simp add: distribute_def transports_def ticket_event_def f r c send_classified_def
        bob_dave_classified_def do_send_raises)
  have s: "do_send default_config two_styles_env ''email'' ticket_event ''text/html''
      [(Some ''dave'', Some True, ''dave@example.com'')] 1 None initial_state =
      (Inl TypeError, initial_state)"
    by (simp add: do_send_def message_id_def hashlib_md5_def)
  from d s classify_bob_dave show ?thesis
    by (simp add: initial_state_def)
qed

theorem decorators_never_run_witness:
  "DecorateMessage 8 [7] \<notin>
   set (trace (snd (distribute default_config two_styles_env ''email'' bob_dave ticket_event
     initial_state)))"
  using decorators_never_run by simp

end
